theory Spec2Isabelle
  imports Main "HOL-Library.AList"
begin

section \<open>Strings and JavaScript values\<close>

text \<open>
  JavaScript strings are modelled as \<open>string\<close>; one \<open>char\<close> stands for one unit
  counted by \<open>String.prototype.length\<close>.  An error is modelled by its message; its class
  (\<open>Error\<close> for all that the program raises itself) is not kept.
\<close>

definition startsWith :: "string \<Rightarrow> string \<Rightarrow> bool" where
  "startsWith s p = (take (length p) s = p)"

text \<open>\<open>s.split(c)\<close> for a one-character separator: always at least one piece.\<close>

fun split :: "char \<Rightarrow> string \<Rightarrow> string list" where
  "split c [] = [[]]"
| "split c (x # xs) =
     (if x = c then [] # split c xs
      else (case split c xs of [] \<Rightarrow> [[x]] | p # ps \<Rightarrow> (x # p) # ps))"

text \<open>The apostrophe and the line feed, for error messages.\<close>

definition apos :: string where
  "apos = [CHR 0x27]"

definition newline :: string where
  "newline = [CHR 0x0A]"

definition service_not_found :: "string \<Rightarrow> string" where
  "service_not_found k = ''Service '' @ apos @ k @ apos @ '' not found''"

text \<open>\<open>xs.join(sep)\<close>.\<close>

fun join :: "string \<Rightarrow> string list \<Rightarrow> string" where
  "join sep [] = []"
| "join sep [x] = x"
| "join sep (x # y # ys) = x @ sep @ join sep (y # ys)"

text \<open>
  The values that occur in option maps, named arguments and defaults.  JavaScript numbers
  are kept abstract (type \<open>'n\<close>); \<open>JNaN\<close> is the number \<open>NaN\<close>.
\<close>

datatype 'n jsval =
    Undefined
  | JBool bool
  | JNum 'n
  | JNaN
  | JStr string
  | JArr "string list"

section \<open>Plain objects\<close>

text \<open>
  A JavaScript object used as a dictionary (\<open>Record<string, T>\<close>, created by \<open>{}\<close> or an
  object literal) is the list of its own properties in the order of \<open>Object.entries\<close>.
  Reading \<open>obj[k]\<close> and testing \<open>k in obj\<close> also find the members that every such
  object inherits from \<open>Object.prototype\<close>.
\<close>

definition proto_members :: "string list" where
  "proto_members =
     [''constructor'', ''__defineGetter__'', ''__defineSetter__'', ''hasOwnProperty'',
      ''__lookupGetter__'', ''__lookupSetter__'', ''isPrototypeOf'', ''propertyIsEnumerable'',
      ''toString'', ''valueOf'', ''__proto__'', ''toLocaleString'']"

datatype 'a property = Own 'a | Inherited string | Absent

text \<open>\<open>obj[k]\<close>: an own property, else an inherited member, else \<open>undefined\<close>.\<close>

definition get_property :: "(string \<times> 'a) list \<Rightarrow> string \<Rightarrow> 'a property" where
  "get_property obj k =
     (case map_of obj k of
        Some v \<Rightarrow> Own v
      | None \<Rightarrow> if k \<in> set proto_members then Inherited k else Absent)"

text \<open>\<open>k in obj\<close>.\<close>

definition in_obj :: "string \<Rightarrow> (string \<times> 'a) list \<Rightarrow> bool" where
  "in_obj k obj = (map_of obj k \<noteq> None \<or> k \<in> set proto_members)"

text \<open>
  The own properties are enumerated with the array indices first, in ascending numeric
  order, then the other keys in the order of their creation.  An array index is a
  canonical decimal numeral below \<open>2^32 - 1\<close>.
\<close>

definition is_digit :: "char \<Rightarrow> bool" where
  "is_digit c = (c \<in> set ''0123456789'')"

definition digits_value :: "string \<Rightarrow> nat" where
  "digits_value s = foldl (\<lambda>n c. 10 * n + (of_char c - 48)) 0 s"

definition array_index :: "string \<Rightarrow> nat option" where
  "array_index s =
     (if s \<noteq> [] \<and> list_all is_digit s \<and> (length s = 1 \<or> hd s \<noteq> CHR ''0'') \<and>
         digits_value s < 4294967295
      then Some (digits_value s) else None)"

fun insert_index :: "nat \<Rightarrow> string \<Rightarrow> 'a \<Rightarrow> (string \<times> 'a) list \<Rightarrow> (string \<times> 'a) list" where
  "insert_index n k v [] = [(k, v)]"
| "insert_index n k v ((k', v') # rest) =
     (case array_index k' of
        Some m \<Rightarrow> if m < n then (k', v') # insert_index n k v rest else (k, v) # (k', v') # rest
      | None \<Rightarrow> (k, v) # (k', v') # rest)"

text \<open>
  \<open>obj[k] = v\<close>: an own property is overwritten where it stands.  Otherwise the key
  \<open>__proto__\<close> reaches the setter inherited from \<open>Object.prototype\<close>, which creates no
  property (under a key that is not yet a property this program writes strings, booleans and
  numbers only, which the setter ignores); any other key becomes a new property at its
  place in the enumeration order.
\<close>

definition obj_set :: "string \<Rightarrow> 'a \<Rightarrow> (string \<times> 'a) list \<Rightarrow> (string \<times> 'a) list" where
  "obj_set k v obj =
     (if map_of obj k \<noteq> None then AList.update k v obj
      else if k = ''__proto__'' then obj
      else (case array_index k of
              Some n \<Rightarrow> insert_index n k v obj
            | None \<Rightarrow> obj @ [(k, v)]))"

type_synonym 'n opts = "(string \<times> 'n jsval) list"

section \<open>Service registry (src/core/registry.ts)\<close>

datatype token = Token (key: string)

datatype token_or_name = ByToken token | ByName string

fun key_of :: "token_or_name \<Rightarrow> string" where
  "key_of (ByName n) = n"
| "key_of (ByToken t) = key t"

text \<open>
  A factory is user code: run in a world \<open>'w\<close> it either throws (\<open>Inl\<close> the message) or
  returns a service, and leaves a new world behind.  An invocation of a factory is visible
  as one application of it to the world.
\<close>

type_synonym ('v, 'w) factory = "'w \<Rightarrow> (string + 'v) \<times> 'w"

record ('v, 'w) registry =
  services :: "string \<rightharpoonup> 'v"
  factories :: "string \<rightharpoonup> ('v, 'w) factory"

definition createRegistry :: "('v, 'w) registry" where
  "createRegistry = \<lparr>services = Map.empty, factories = Map.empty\<rparr>"

definition register :: "('v, 'w) registry \<Rightarrow> token_or_name \<Rightarrow> 'v \<Rightarrow> ('v, 'w) registry" where
  "register r tokenOrName service =
     r\<lparr>services := (services r)(key_of tokenOrName \<mapsto> service)\<rparr>"

definition registerFactory ::
  "('v, 'w) registry \<Rightarrow> token_or_name \<Rightarrow> ('v, 'w) factory \<Rightarrow> ('v, 'w) registry" where
  "registerFactory r tokenOrName factory =
     r\<lparr>factories := (factories r)(key_of tokenOrName \<mapsto> factory)\<rparr>"

definition get ::
  "('v, 'w) registry \<Rightarrow> token_or_name \<Rightarrow> 'w \<Rightarrow> (string + 'v) \<times> ('v, 'w) registry \<times> 'w" where
  "get r tokenOrName w =
     (let key = key_of tokenOrName in
      case services r key of
        Some service \<Rightarrow> (Inr service, r, w)
      | None \<Rightarrow>
          (case factories r key of
             Some factory \<Rightarrow>
               (case factory w of
                  (Inr service, w') \<Rightarrow> (Inr service, r\<lparr>services := (services r)(key \<mapsto> service)\<rparr>, w')
                | (Inl e, w') \<Rightarrow> (Inl e, r, w'))
           | None \<Rightarrow> (Inl (service_not_found key), r, w)))"

definition has :: "('v, 'w) registry \<Rightarrow> token_or_name \<Rightarrow> bool" where
  "has r tokenOrName =
     (let key = key_of tokenOrName in services r key \<noteq> None \<or> factories r key \<noteq> None)"

definition clear :: "('v, 'w) registry \<Rightarrow> ('v, 'w) registry" where
  "clear r = r\<lparr>services := Map.empty, factories := Map.empty\<rparr>"


section \<open>The router's option parser (commands/router.ts, parseOptions)\<close>

text \<open>
  The loop \<open>for (i = 0; i < args.length; i++)\<close> with its \<open>++i\<close> on a consumed value is a
  recursion on the rest of the vector: consuming a value drops two tokens.
\<close>

fun parseOptions_loop :: "string list \<Rightarrow> 'n opts \<Rightarrow> 'n opts" where
  "parseOptions_loop [] options = options"
| "parseOptions_loop (arg # rest) options =
     (if startsWith arg ''--'' then
        (let parts = split CHR ''='' (drop 2 arg); key = hd parts in
         if length parts > 1 then
           parseOptions_loop rest (obj_set key (JStr (parts ! 1)) options)
         else
           (case rest of
              nxt # rest' \<Rightarrow>
                if \<not> startsWith nxt ''-''
                then parseOptions_loop rest' (obj_set key (JStr nxt) options)
                else parseOptions_loop rest (obj_set key (JBool True) options)
            | [] \<Rightarrow> parseOptions_loop rest (obj_set key (JBool True) options)))
      else if startsWith arg ''-'' \<and> length arg = 2 then
        (let key = drop 1 arg in
         case rest of
           nxt # rest' \<Rightarrow>
             if \<not> startsWith nxt ''-''
             then parseOptions_loop rest' (obj_set key (JStr nxt) options)
             else parseOptions_loop rest (obj_set key (JBool True) options)
         | [] \<Rightarrow> parseOptions_loop rest (obj_set key (JBool True) options))
      else parseOptions_loop rest options)"

definition parseOptions :: "string list \<Rightarrow> 'n opts" where
  "parseOptions args = parseOptions_loop args []"

section \<open>Command model (types/commands.ts)\<close>

text \<open>
  The context handed to middleware and handlers.  It is one mutable object shared by all
  of them during an invocation.  Of \<open>context.registry\<close> the pipeline only ever asks for the
  logger; \<open>logger\<close> says whether \<open>registry.get(LoggerToken)\<close> succeeds.
\<close>

record 'n cmd_context =
  args :: "string list"
  namedArgs :: "'n opts option"
  options :: "'n opts"
  logger :: bool

record 'n route_context =
  commandName :: string
  rc_args :: "string list"
  rc_options :: "'n opts"

text \<open>
  What a custom validator returns, as the code tells the cases apart: a string, another
  falsy value (\<open>false\<close>, \<open>undefined\<close>, ...), or another truthy value (\<open>true\<close>).
\<close>

datatype validate_result = Truthy | Falsy | Message string

datatype arg_type = ArgString | ArgNumber

datatype option_type = OptString | OptBoolean | OptNumber | OptArray

record 'n arg_spec =
  arg_type :: arg_type
  arg_required :: bool
  arg_validate :: "('n jsval \<Rightarrow> validate_result) option"

record 'n option_spec =
  opt_type :: option_type
  opt_default :: "'n jsval option"
  opt_required :: bool
  opt_validate :: "('n jsval \<Rightarrow> validate_result) option"

subsection \<open>Observable behaviour\<close>

text \<open>
  The trace records what an invocation does that can be seen from outside: every call the
  framework makes to user-supplied code (with the arguments of the call, so with the
  context object as it is at that moment), the output of that code, and the log lines.
  \<open>Called tag i c\<close>: the chain \<open>tag\<close> calls its middleware number \<open>i\<close> on context \<open>c\<close>.
\<close>

datatype 'n log_line =
    Loaded string
  | Executing string
  | LogArgs "string list"
  | LogOptions "'n opts"

datatype 'n event =
    Called string nat "'n cmd_context"
  | Handler string "'n cmd_context"
  | Output string
  | Debug "'n log_line"
  | RouteHook string "'n route_context"
  | ErrorHook string "'n route_context"
  | DefaultHandler "string list" "'n opts"
  | PluginHook string string string
  | Fatal string

record 'n state =
  ctx :: "'n cmd_context"
  trace :: "'n event list"
  index :: nat

text \<open>
  A computation runs on the state and either returns (\<open>None\<close>) or throws (\<open>Some\<close> message).
\<close>

type_synonym 'n comp = "'n state \<Rightarrow> string option \<times> 'n state"

text \<open>
  User code (a middleware body, a handler) is given by the steps it performs: it may call
  its continuation \<open>next()\<close> (an error thrown there propagates), print, write \<open>logger.debug\<close>
  lines, mutate the context, and throw.  \<open>Update\<close> changes the context object in place;
  the options it leaves are the new contents of the same options object.
\<close>

datatype 'n step =
    CallNext
  | Emit "'n cmd_context \<Rightarrow> string"
  | LogDebug "'n log_line"
  | Update "'n cmd_context \<Rightarrow> 'n cmd_context"
  | Throw string

type_synonym 'n script = "'n step list"

fun exec_script :: "'n script \<Rightarrow> 'n comp \<Rightarrow> 'n comp" where
  "exec_script [] nxt s = (None, s)"
| "exec_script (CallNext # rest) nxt s =
     (case nxt s of
        (None, s') \<Rightarrow> exec_script rest nxt s'
      | (Some e, s') \<Rightarrow> (Some e, s'))"
| "exec_script (Emit f # rest) nxt s =
     exec_script rest nxt (s\<lparr>trace := trace s @ [Output (f (ctx s))]\<rparr>)"
| "exec_script (LogDebug l # rest) nxt s =
     exec_script rest nxt (s\<lparr>trace := trace s @ [Debug l]\<rparr>)"
| "exec_script (Update f # rest) nxt s = exec_script rest nxt (s\<lparr>ctx := f (ctx s)\<rparr>)"
| "exec_script (Throw e # rest) nxt s = (Some e, s)"

text \<open>
  A command.  Of the fields of \<open>Command\<close>, \<open>usage\<close> and \<open>examples\<close> only feed the help text
  and are left out.  \<open>execute\<close> is the function stored in the object, when there is one.
\<close>

datatype 'n command =
  Command
    (name: string)
    (description: string)
    (aliases: "string list")
    (cmd_args: "(string \<times> 'n arg_spec) list")
    (cmd_options: "(string \<times> 'n option_spec) list")
    (subcommands: "(string \<times> 'n command) list option")
    (execute: "'n comp option")

text \<open>
  \<open>CommandDefinition = Command | (() => Promise<Command>)\<close>; a loader is given by the
  command it resolves to.
\<close>

datatype 'n command_def = Eager "'n command" | Lazy "'n command"

text \<open>
  At run time a variable declared as a \<open>CommandDefinition\<close> can hold other values.  Read
  from a plain object under a name that is no key of it, it is the member of
  \<open>Object.prototype\<close> of that name: a function, or for \<open>__proto__\<close> the object
  \<open>Object.prototype\<close> itself.  After the call of such a function it is what the call
  returned: \<open>Returned m\<close> is the value returned by the member \<open>m\<close> called without receiver
  and without arguments.
\<close>

datatype 'n command_value =
    Defined "'n command_def"
  | Member string
  | Returned string

text \<open>\<open>typeof v === 'function'\<close>.\<close>

fun is_function :: "'n command_value \<Rightarrow> bool" where
  "is_function (Defined (Lazy loader)) = True"
| "is_function (Defined (Eager cmd)) = False"
| "is_function (Member m) = (m \<noteq> ''__proto__'')"
| "is_function (Returned m) = False"

text \<open>
  The command whose fields are read by \<open>v.args\<close>, \<open>v.options\<close>, \<open>v.name\<close>, \<open>v.subcommands\<close>
  and \<open>v.execute\<close>; on every other value these fields are \<open>undefined\<close>.
\<close>

fun as_command :: "'n command_value \<Rightarrow> 'n command option" where
  "as_command (Defined (Eager cmd)) = Some cmd"
| "as_command v = None"

definition subcommands_of :: "'n command_value \<Rightarrow> (string \<times> 'n command) list option" where
  "subcommands_of v = (case as_command v of Some cmd \<Rightarrow> subcommands cmd | None \<Rightarrow> None)"

definition execute_of :: "'n command_value \<Rightarrow> 'n comp option" where
  "execute_of v = (case as_command v of Some cmd \<Rightarrow> execute cmd | None \<Rightarrow> None)"

text \<open>
  \<open>await v()\<close>.  A loader returns its command.  Of the members of \<open>Object.prototype\<close>,
  called without receiver, \<open>constructor\<close> returns a new empty object, \<open>toString\<close> the
  string \<open>[object Undefined]\<close> and \<open>isPrototypeOf\<close> the value \<open>false\<close>; the others raise a
  \<open>TypeError\<close>, whose wording depends on the engine: the model keeps the member.  A value
  that is not a function is never called.
\<close>

definition type_error :: "string \<Rightarrow> string" where
  "type_error m = ''Object.prototype.'' @ m @ '' called on null or undefined''"

definition call_member :: "string \<Rightarrow> string + 'n command_value" where
  "call_member m =
     (if m \<in> set [''constructor'', ''toString'', ''isPrototypeOf''] then Inr (Returned m)
      else Inl (type_error m))"

fun call :: "'n command_value \<Rightarrow> string + 'n command_value" where
  "call (Defined (Lazy cmd)) = Inr (Defined (Eager cmd))"
| "call (Member m) = call_member m"
| "call v = Inl ''not a function''"

text \<open>
  A middleware \<open>(context, command, next) => ...\<close>: its steps, for the context and the command
  it is called with.
\<close>

type_synonym 'n middleware = "'n cmd_context \<Rightarrow> 'n command_value \<Rightarrow> 'n script"

type_synonym 'n executor = "'n cmd_context \<Rightarrow> 'n script"

text \<open>
  Calling a user handler: the call is recorded, then its steps run.  A handler has no
  continuation; a \<open>CallNext\<close> step in one does nothing.
\<close>

definition run_handler :: "string \<Rightarrow> 'n executor \<Rightarrow> 'n comp" where
  "run_handler nm h s =
     exec_script (h (ctx s)) (\<lambda>s'. (None, s')) (s\<lparr>trace := trace s @ [Handler nm (ctx s)]\<rparr>)"

subsection \<open>The middleware chain\<close>

text \<open>
  Both chains have the same shape:
  \<^verbatim>\<open>
  let index = 0;
  const next = async () => {
    if (index < middleware.length) {
      const currentMiddleware = middleware[index++];
      await currentMiddleware(context, command, next);
    } else { <terminal> }
  };
  await next();
  \<close>
  \<open>index\<close> is one variable shared by every call of \<open>next\<close>; it lives in the state.
  \<open>chain_next tag mws cmd terminal i\<close> is the closure \<open>next\<close> at a moment when
  \<open>index\<close> is at least \<open>i\<close>, which is so whenever it is called, since \<open>index\<close> only grows
  (\<open>max\<close> only makes the recursion well-founded).
\<close>

function chain_next ::
  "string \<Rightarrow> 'n middleware list \<Rightarrow> 'n command_value \<Rightarrow> 'n comp \<Rightarrow> nat \<Rightarrow> 'n comp" where
  "chain_next tag mws cmd terminal i =
     (\<lambda>s. let j = max i (index s) in
          if j < length mws then
            exec_script ((mws ! j) (ctx s) cmd)
              (chain_next tag mws cmd terminal (Suc j))
              (s\<lparr>index := Suc j, trace := trace s @ [Called tag j (ctx s)]\<rparr>)
          else terminal s)"
  by pat_completeness auto
termination
  by (relation "measure (\<lambda>(tag, mws, cmd, terminal, i). length mws - i)") auto

text \<open>\<open>let index = 0; ...; await next()\<close>: a fresh \<open>index\<close> for this run of the chain.\<close>

definition run_chain ::
  "string \<Rightarrow> 'n middleware list \<Rightarrow> 'n command_value \<Rightarrow> 'n comp \<Rightarrow> 'n comp" where
  "run_chain tag mws cmd terminal s =
     (case chain_next tag mws cmd terminal 0 (s\<lparr>index := 0\<rparr>) of
        (r, s') \<Rightarrow> (r, s'\<lparr>index := index s\<rparr>))"

section \<open>Built-in middleware\<close>

text \<open>
  \<open>Number(v)\<close> on a value that is not a number is a parameter \<open>N\<close> of the model
  (\<open>None\<close> when the result is \<open>NaN\<close>); on a number it is the identity.
\<close>

fun is_number :: "'n jsval \<Rightarrow> bool" where
  "is_number (JNum n) = True"
| "is_number JNaN = True"
| "is_number v = False"

definition Number :: "('n jsval \<Rightarrow> 'n option) \<Rightarrow> 'n jsval \<Rightarrow> 'n jsval" where
  "Number N v =
     (if is_number v then v else (case N v of None \<Rightarrow> JNaN | Some n \<Rightarrow> JNum n))"

fun is_boolean :: "'n jsval \<Rightarrow> bool" where
  "is_boolean (JBool b) = True"
| "is_boolean v = False"

definition isNaN :: "'n jsval \<Rightarrow> bool" where
  "isNaN v = (v = JNaN)"

subsection \<open>validateArgs (commands/middleware/validate-args.ts)\<close>

text \<open>
  The loop over \<open>argNames\<close>, with \<open>errors\<close> and \<open>namedArgs\<close> as accumulators.
  \<open>!providedArgs[i]\<close> holds when position \<open>i\<close> is absent or holds the empty string.
\<close>

fun validateArgs_loop ::
  "('n jsval \<Rightarrow> 'n option) \<Rightarrow> (string \<times> 'n arg_spec) list \<Rightarrow> nat \<Rightarrow> string list \<Rightarrow>
     string list \<Rightarrow> 'n opts \<Rightarrow> string list \<times> 'n opts" where
  "validateArgs_loop N [] i providedArgs errors named = (errors, named)"
| "validateArgs_loop N ((argName, argSpec) # rest) i providedArgs errors named =
     (if arg_required argSpec \<and> (length providedArgs \<le> i \<or> providedArgs ! i = [])
      then validateArgs_loop N rest (Suc i) providedArgs
             (errors @ [''Missing required argument: '' @ argName]) named
      else if i < length providedArgs then
        (let value = JStr (providedArgs ! i);
             failed = (arg_type argSpec = ArgNumber \<and> isNaN (Number N value));
             errors1 = (if failed then errors @ [''Argument '' @ argName @ '' must be a number'']
                        else errors);
             value1 = (if arg_type argSpec = ArgNumber \<and> \<not> failed then Number N value else value);
             errors2 = (case arg_validate argSpec of
                          None \<Rightarrow> errors1
                        | Some validate \<Rightarrow>
                            (case validate value1 of
                               Message result \<Rightarrow> errors1 @ [result]
                             | Falsy \<Rightarrow> errors1 @ [''Invalid value for argument '' @ argName]
                             | Truthy \<Rightarrow> errors1))
         in validateArgs_loop N rest (Suc i) providedArgs errors2
              (obj_set argName value1 named))
      else validateArgs_loop N rest (Suc i) providedArgs errors named)"

definition validation_error :: "string list \<Rightarrow> string" where
  "validation_error errors = ''Validation errors:'' @ newline @ join newline errors"

definition validateArgs :: "('n jsval \<Rightarrow> 'n option) \<Rightarrow> 'n middleware" where
  "validateArgs N context command =
     (if is_function command then [CallNext]
      else
        (let argSpecs = (case as_command command of Some cmd \<Rightarrow> cmd_args cmd | None \<Rightarrow> [])
         in case validateArgs_loop N argSpecs 0 (args context) [] [] of
              (errors, named) \<Rightarrow>
                if length errors > 0 then [Throw (validation_error errors)]
                else [Update (\<lambda>c. c\<lparr>namedArgs := Some named\<rparr>), CallNext]))"

subsection \<open>validateOptions (commands/middleware/validate-options.ts)\<close>

definition is_ws :: "char \<Rightarrow> bool" where
  "is_ws c = (c \<in> set [CHR '' '', CHR 0x09, CHR 0x0A, CHR 0x0B, CHR 0x0C, CHR 0x0D])"

text \<open>\<open>s.trim()\<close>, for the ASCII white space.\<close>

definition trim :: "string \<Rightarrow> string" where
  "trim s = rev (dropWhile is_ws (rev (dropWhile is_ws s)))"

text \<open>First loop: required options whose name is not \<open>in\<close> the provided map.\<close>

fun required_loop :: "(string \<times> 'n option_spec) list \<Rightarrow> 'n opts \<Rightarrow> string list \<Rightarrow> string list" where
  "required_loop [] provided errors = errors"
| "required_loop ((nm, spec) # rest) provided errors =
     (if opt_required spec \<and> \<not> in_obj nm provided
      then required_loop rest provided (errors @ [''Missing required option: --'' @ nm])
      else required_loop rest provided errors)"

text \<open>
  Second loop, over the entries of the provided map as they are when the loop starts;
  \<open>current\<close> is \<open>context.options\<close>, which the array case writes to.  \<open>optionSpecs[name]\<close>
  also finds the members that the specification object inherits; they have no \<open>type\<close> and
  no \<open>validate\<close>, so nothing is checked for them.
\<close>

fun provided_loop ::
  "('n jsval \<Rightarrow> 'n option) \<Rightarrow> (string \<times> 'n option_spec) list \<Rightarrow> 'n opts \<Rightarrow>
     string list \<Rightarrow> 'n opts \<Rightarrow> string list \<times> 'n opts" where
  "provided_loop N specs [] errors current = (errors, current)"
| "provided_loop N specs ((nm, v) # rest) errors current =
     (case get_property specs nm of
        Absent \<Rightarrow> provided_loop N specs rest errors current
      | Inherited m \<Rightarrow> provided_loop N specs rest errors current
      | Own optionSpec \<Rightarrow>
          (let errors1 =
                 (case opt_type optionSpec of
                    OptNumber \<Rightarrow>
                      if \<not> is_number v \<and> isNaN (Number N v)
                      then errors @ [''Option --'' @ nm @ '' must be a number'']
                      else errors
                  | OptBoolean \<Rightarrow>
                      if \<not> is_boolean v \<and> v \<noteq> JStr ''true'' \<and> v \<noteq> JStr ''false''
                      then errors @ [''Option --'' @ nm @ '' must be a boolean'']
                      else errors
                  | _ \<Rightarrow> errors);
               current1 = (case (opt_type optionSpec, v) of
                             (OptArray, JStr str) \<Rightarrow>
                               obj_set nm (JArr (map trim (split CHR '','' str))) current
                           | _ \<Rightarrow> current);
               errors2 = (case opt_validate optionSpec of
                            None \<Rightarrow> errors1
                          | Some validate \<Rightarrow>
                              (case validate v of
                                 Message result \<Rightarrow> errors1 @ [result]
                               | Falsy \<Rightarrow> errors1 @ [''Invalid value for option --'' @ nm]
                               | Truthy \<Rightarrow> errors1))
           in provided_loop N specs rest errors2 current1))"

text \<open>Third loop: defaults for the options whose name is not \<open>in\<close> the map.\<close>

fun defaults_loop :: "(string \<times> 'n option_spec) list \<Rightarrow> 'n opts \<Rightarrow> 'n opts" where
  "defaults_loop [] current = current"
| "defaults_loop ((nm, spec) # rest) current =
     (case opt_default spec of
        Some d \<Rightarrow>
          if \<not> in_obj nm current then defaults_loop rest (obj_set nm d current)
          else defaults_loop rest current
      | None \<Rightarrow> defaults_loop rest current)"

text \<open>Fourth loop: conversion, over the entries of \<open>context.options\<close> at its start.\<close>

fun convert_loop ::
  "('n jsval \<Rightarrow> 'n option) \<Rightarrow> (string \<times> 'n option_spec) list \<Rightarrow> 'n opts \<Rightarrow> 'n opts \<Rightarrow> 'n opts" where
  "convert_loop N specs [] current = current"
| "convert_loop N specs ((nm, v) # rest) current =
     (case get_property specs nm of
        Absent \<Rightarrow> convert_loop N specs rest current
      | Inherited m \<Rightarrow> convert_loop N specs rest current
      | Own optionSpec \<Rightarrow>
          (case opt_type optionSpec of
             OptNumber \<Rightarrow> convert_loop N specs rest (obj_set nm (Number N v) current)
           | OptBoolean \<Rightarrow>
               convert_loop N specs rest
                 (obj_set nm (JBool (v = JBool True \<or> v = JStr ''true'')) current)
           | _ \<Rightarrow> convert_loop N specs rest current))"

definition validateOptions :: "('n jsval \<Rightarrow> 'n option) \<Rightarrow> 'n middleware" where
  "validateOptions N context command =
     (if is_function command then [CallNext]
      else
        (let optionSpecs = (case as_command command of Some cmd \<Rightarrow> cmd_options cmd | None \<Rightarrow> []);
             providedOptions = options context;
             errors0 = required_loop optionSpecs providedOptions []
         in case provided_loop N optionSpecs providedOptions errors0 providedOptions of
              (errors, current) \<Rightarrow>
                if length errors > 0
                then [Update (\<lambda>c. c\<lparr>options := current\<rparr>), Throw (validation_error errors)]
                else
                  (let withDefaults = defaults_loop optionSpecs current;
                       converted = convert_loop N optionSpecs withDefaults withDefaults
                   in [Update (\<lambda>c. c\<lparr>options := converted\<rparr>), CallNext])))"

subsection \<open>logExecution (commands/middleware/log-execution.ts)\<close>

definition logExecution :: "'n middleware" where
  "logExecution context command =
     (if \<not> logger context then [Throw (service_not_found ''logger'')]
      else
        [LogDebug (Executing
           (if is_function command then ''lazy-loaded''
            else (case as_command command of Some cmd \<Rightarrow> name cmd | None \<Rightarrow> ''undefined''))),
         LogDebug (LogArgs (args context)),
         LogDebug (LogOptions (options context)),
         CallNext])"

section \<open>The command builder (commands/create-command.ts)\<close>

text \<open>
  A command specification.  \<open>subcommands\<close> of a specification is not copied by the builder
  and is left out, as are \<open>usage\<close> and \<open>examples\<close>.
\<close>

record 'n command_spec =
  spec_name :: string
  spec_description :: string
  spec_options :: "(string \<times> 'n option_spec) list"
  spec_args :: "(string \<times> 'n arg_spec) list"
  spec_aliases :: "string list"
  spec_middleware :: "'n middleware list"
  spec_execute :: "'n executor option"

text \<open>
  The object the builder returns, without its \<open>execute\<close>: this is what the built-in chain
  hands to each middleware as \<open>command\<close> (a script cannot call \<open>command.execute\<close>).
\<close>

definition built_command :: "'n command_spec \<Rightarrow> 'n command" where
  "built_command spec =
     Command (spec_name spec) (spec_description spec) (spec_aliases spec)
       (spec_args spec) (spec_options spec) None None"

text \<open>
  \<^verbatim>\<open>
  const middleware = [...(spec.middleware || []), validateArgs, validateOptions, logExecution];
  let index = 0;
  const next = async () => {
    if (index < middleware.length) { ...middleware[index++](context, command, next) }
  };
  await next();
  if (!spec.execute) throw new Error(`Command '${spec.name}' has no execute function`);
  return spec.execute(context);
  \<close>
\<close>

definition built_execute :: "('n jsval \<Rightarrow> 'n option) \<Rightarrow> 'n command_spec \<Rightarrow> 'n comp" where
  "built_execute N spec s =
     (let middleware = spec_middleware spec @ [validateArgs N, validateOptions N, logExecution] in
      case run_chain (spec_name spec) middleware (Defined (Eager (built_command spec)))
             (\<lambda>s'. (None, s')) s of
        (Some e, s') \<Rightarrow> (Some e, s')
      | (None, s') \<Rightarrow>
          (case spec_execute spec of
             None \<Rightarrow> (Some (''Command '' @ apos @ spec_name spec @ apos @ '' has no execute function''), s')
           | Some h \<Rightarrow> run_handler (spec_name spec) h s'))"

definition createCommand :: "('n jsval \<Rightarrow> 'n option) \<Rightarrow> 'n command_spec \<Rightarrow> 'n command" where
  "createCommand N spec =
     Command (spec_name spec) (spec_description spec) (spec_aliases spec)
       (spec_args spec) (spec_options spec) None (Some (built_execute N spec))"

section \<open>The router (commands/router.ts)\<close>

record custom_result =
  cr_command :: string
  cr_args :: "string list"
  skipNormalRouting :: bool

text \<open>
  What the \<open>beforeExecute\<close> transform returns as \<open>options\<close>: the object it was given, or
  another object.
\<close>

datatype 'n returned_options = Given | Fresh "'n opts"

text \<open>
  The router: its command mapping in the order of \<open>Object.entries\<close>, its middleware, whether
  its registry resolves the logger, its hooks and its routing options.  A hook is user code
  that returns (\<open>None\<close>) or throws (\<open>Some\<close> message); the custom router and the
  \<open>beforeExecute\<close> transform are pure.  An option that is not configured is \<open>None\<close>.
\<close>

record 'n router =
  commands :: "(string \<times> 'n command_def) list"
  middleware :: "'n middleware list"
  registry_logger :: bool
  onBeforeRoute :: "('n route_context \<Rightarrow> string option) option"
  onAfterRoute :: "('n route_context \<Rightarrow> string option) option"
  onError :: "(string \<Rightarrow> 'n route_context \<Rightarrow> string option) option"
  customRouter :: "(string list \<Rightarrow> custom_result option) option"
  defaultCommand :: "string option"
  defaultHandler :: "(string list \<Rightarrow> 'n opts \<Rightarrow> string option) option"
  beforeExecute ::
    "(string \<Rightarrow> string list \<Rightarrow> 'n opts \<Rightarrow> (string \<times> string list \<times> 'n returned_options) option) option"

definition use :: "'n router \<Rightarrow> 'n middleware \<Rightarrow> 'n router" where
  "use r m = r\<lparr>middleware := middleware r @ [m]\<rparr>"

definition is_flag :: "string \<Rightarrow> bool" where
  "is_flag arg = startsWith arg ''-''"


text \<open>
  \<open>this.commands[name]\<close>: the entry of the mapping, else the member of that name that the
  mapping inherits, else \<open>undefined\<close>.  Every value found is truthy.
\<close>

definition lookup :: "(string \<times> 'n command_def) list \<Rightarrow> string \<Rightarrow> 'n command_value option" where
  "lookup cs nm =
     (case get_property cs nm of
        Own commandDef \<Rightarrow> Some (Defined commandDef)
      | Inherited m \<Rightarrow> Some (Member m)
      | Absent \<Rightarrow> None)"

text \<open>The scan goes over the entries of the mapping itself, in their order.\<close>

fun findByAlias :: "(string \<times> 'n command_def) list \<Rightarrow> string \<Rightarrow> 'n command_def option" where
  "findByAlias [] alias = None"
| "findByAlias ((nm, Lazy loader) # rest) alias = findByAlias rest alias"
| "findByAlias ((nm, Eager commandDef) # rest) alias =
     (if alias \<in> set (aliases commandDef) then Some (Eager commandDef)
      else findByAlias rest alias)"

definition call_hook ::
  "string \<Rightarrow> ('n route_context \<Rightarrow> string option) option \<Rightarrow> 'n route_context \<Rightarrow>
     'n event list \<Rightarrow> string option \<times> 'n event list" where
  "call_hook nm hook context tr =
     (case hook of
        None \<Rightarrow> (None, tr)
      | Some h \<Rightarrow> (h context, tr @ [RouteHook nm context]))"

subsection \<open>executeCommand\<close>

definition initial_command_context ::
  "'n router \<Rightarrow> string list \<Rightarrow> 'n route_context \<Rightarrow> 'n cmd_context" where
  "initial_command_context r remainingArgs context =
     \<lparr>args = filter (\<lambda>arg. \<not> startsWith arg ''-'') remainingArgs,
      namedArgs = None,
      options = rc_options context,
      logger = registry_logger r\<rparr>"

text \<open>
  The command context after the \<open>beforeExecute\<close> transform, and whether its options are
  still the options object of the route context.
\<close>

definition command_context ::
  "'n router \<Rightarrow> string \<Rightarrow> string list \<Rightarrow> 'n route_context \<Rightarrow> 'n cmd_context \<times> bool" where
  "command_context r cmdName remainingArgs context =
     (let commandContext = initial_command_context r remainingArgs context in
      case beforeExecute r of
        None \<Rightarrow> (commandContext, True)
      | Some f \<Rightarrow>
          (case f cmdName (args commandContext) (options commandContext) of
             None \<Rightarrow> (commandContext, True)
           | Some (c', a', Given) \<Rightarrow>
               (\<lparr>args = a', namedArgs = None, options = options commandContext,
                 logger = registry_logger r\<rparr>, True)
           | Some (c', a', Fresh os') \<Rightarrow>
               (\<lparr>args = a', namedArgs = None, options = os', logger = registry_logger r\<rparr>, False)))"

definition requires_subcommand :: "string list \<Rightarrow> string" where
  "requires_subcommand subcommandPath =
     ''Command '' @ apos @ join '' '' subcommandPath @ apos @ '' requires a subcommand''"

definition router_terminal :: "'n command_value \<Rightarrow> string list \<Rightarrow> 'n comp" where
  "router_terminal resolvedCommand subcommandPath s =
     (case execute_of resolvedCommand of
        None \<Rightarrow> (Some (requires_subcommand subcommandPath), s)
      | Some ex \<Rightarrow> ex s)"

text \<open>
  \<open>executeCommand\<close>: the error it throws, if any, the route context as it is afterwards, and
  the trace.  While the options of the command context are the options object of the route
  context, what the middleware and the handler write there is in the route context too.
\<close>

definition executeCommand ::
  "'n router \<Rightarrow> 'n command_value \<Rightarrow> string \<Rightarrow> string list \<Rightarrow> 'n route_context \<Rightarrow>
     string list \<Rightarrow> 'n event list \<Rightarrow> string option \<times> 'n route_context \<times> 'n event list" where
  "executeCommand r commandDef cmdName remainingArgs context subcommandPath tr =
     (case (if is_function commandDef then call commandDef else Inr commandDef) of
        Inl e \<Rightarrow> (Some e, context, tr)
      | Inr resolvedCommand \<Rightarrow>
          (case command_context r cmdName remainingArgs context of
             (commandContext, shared) \<Rightarrow>
               (case run_chain ''router'' (middleware r) resolvedCommand
                       (router_terminal resolvedCommand subcommandPath)
                       \<lparr>ctx = commandContext, trace = tr, index = 0\<rparr> of
                  (e, s') \<Rightarrow>
                    (e,
                     if shared then context\<lparr>rc_options := options (ctx s')\<rparr> else context,
                     trace s'))))"

subsection \<open>The stages of route\<close>

text \<open>\<open>let [commandName = 'help', ...restArgs] = args\<close> and the first route context.\<close>

definition initial_context :: "string list \<Rightarrow> 'n route_context" where
  "initial_context argv =
     \<lparr>commandName = (case argv of [] \<Rightarrow> ''help'' | a # _ \<Rightarrow> a),
      rc_args = tl argv,
      rc_options = parseOptions (tl argv)\<rparr>"

text \<open>The custom router: the route context that results and whether to skip normal routing.\<close>

definition custom_route ::
  "'n router \<Rightarrow> string list \<Rightarrow> 'n route_context \<Rightarrow> 'n route_context \<times> bool" where
  "custom_route r argv context =
     (case customRouter r of
        None \<Rightarrow> (context, False)
      | Some f \<Rightarrow>
          (case f argv of
             None \<Rightarrow> (context, False)
           | Some customResult \<Rightarrow>
               (\<lparr>commandName = cr_command customResult,
                 rc_args = cr_args customResult,
                 rc_options = parseOptions (cr_args customResult)\<rparr>,
                skipNormalRouting customResult)))"

text \<open>
  Resolution of the command name: the value found, the command name, the remaining
  arguments and the subcommand path; or the default handler; or a failure.
\<close>

datatype 'n resolution =
    Resolved "'n command_value" string "string list" "string list"
  | ByDefaultHandler "string list \<Rightarrow> 'n opts \<Rightarrow> string option"
  | NotFound string

definition resolve :: "'n router \<Rightarrow> string \<Rightarrow> string list \<Rightarrow> string list \<Rightarrow> 'n resolution" where
  "resolve r cmdName restArgs argv =
     (case lookup (commands r) cmdName of
        Some commandDef \<Rightarrow> Resolved commandDef cmdName restArgs [cmdName]
      | None \<Rightarrow>
          (case findByAlias (commands r) cmdName of
             Some aliasedCommand \<Rightarrow> Resolved (Defined aliasedCommand) cmdName restArgs [cmdName]
           | None \<Rightarrow>
               (case (case defaultCommand r of None \<Rightarrow> None
                      | Some dn \<Rightarrow> if dn = [] then None else Some dn) of
                  Some dn \<Rightarrow>
                    (case lookup (commands r) dn of
                       Some defaultCommandDef \<Rightarrow> Resolved defaultCommandDef dn argv [dn]
                     | None \<Rightarrow> NotFound (''Default command '' @ apos @ dn @ apos @ '' not found''))
                | None \<Rightarrow>
                    (case defaultHandler r of
                       Some h \<Rightarrow> ByDefaultHandler h
                     | None \<Rightarrow> NotFound (''Unknown command: '' @ cmdName)))))"

text \<open>
  Loading: a function is called, and the router then logs through the logger of its
  registry (the elapsed time in the log line is left out).
\<close>

definition load ::
  "'n router \<Rightarrow> 'n command_value \<Rightarrow> string \<Rightarrow> 'n event list \<Rightarrow>
     (string + 'n command_value) \<times> 'n event list" where
  "load r commandDef cmdName tr =
     (if is_function commandDef then
        (case call commandDef of
           Inl e \<Rightarrow> (Inl e, tr)
         | Inr loaded \<Rightarrow>
             if registry_logger r then (Inr loaded, tr @ [Debug (Loaded cmdName)])
             else (Inl (service_not_found ''logger''), tr))
      else (Inr commandDef, tr))"

text \<open>The subcommand check: the command, the remaining arguments and the path after it.\<close>

definition unknown_subcommand :: "string \<Rightarrow> string \<Rightarrow> string list \<Rightarrow> string" where
  "unknown_subcommand sub cmdName available =
     ''Unknown subcommand '' @ apos @ sub @ apos @ '' for command '' @ apos @ cmdName @ apos @
     ''. Available subcommands: '' @ join '', '' available"

definition descend ::
  "'n command_value \<Rightarrow> string \<Rightarrow> string list \<Rightarrow> string list \<Rightarrow>
     string + ('n command_value \<times> string list \<times> string list)" where
  "descend commandDef cmdName remainingArgs subcommandPath =
     (case subcommands_of commandDef of
        None \<Rightarrow> Inr (commandDef, remainingArgs, subcommandPath)
      | Some subs \<Rightarrow>
          (case remainingArgs of
             [] \<Rightarrow> Inr (commandDef, remainingArgs, subcommandPath)
           | potentialSubcommand # others \<Rightarrow>
               if \<not> startsWith potentialSubcommand ''-'' then
                 (case get_property subs potentialSubcommand of
                    Own subcommand \<Rightarrow>
                      Inr (Defined (Eager subcommand), others,
                           subcommandPath @ [potentialSubcommand])
                  | Inherited m \<Rightarrow>
                      Inr (Member m, others, subcommandPath @ [potentialSubcommand])
                  | Absent \<Rightarrow>
                      if execute_of commandDef = None
                      then Inl (unknown_subcommand potentialSubcommand cmdName (map fst subs))
                      else Inr (commandDef, remainingArgs, subcommandPath))
               else Inr (commandDef, remainingArgs, subcommandPath)))"

text \<open>The help fallback.  Neither of the two names is a member of \<open>Object.prototype\<close>.\<close>

definition wants_help :: "'n command_value \<Rightarrow> string list \<Rightarrow> bool" where
  "wants_help commandDef remainingArgs =
     (subcommands_of commandDef \<noteq> None \<and> execute_of commandDef = None \<and>
      length (filter (\<lambda>arg. \<not> startsWith arg ''-'') remainingArgs) = 0)"

definition helpCommand :: "'n router \<Rightarrow> 'n command_value option" where
  "helpCommand r =
     (case lookup (commands r) ''help'' of
        Some h \<Rightarrow> Some h
      | None \<Rightarrow> lookup (commands r) ''Help'')"

definition show_help ::
  "'n router \<Rightarrow> 'n command_value \<Rightarrow> string \<Rightarrow> 'n route_context \<Rightarrow> 'n event list \<Rightarrow>
     string option \<times> 'n route_context \<times> 'n event list" where
  "show_help r helpDef cmdName context tr =
     (let helpContext = \<lparr>args = [cmdName], namedArgs = None, options = [],
                         logger = registry_logger r\<rparr>
      in case (if is_function helpDef then call helpDef else Inr helpDef) of
           Inl e \<Rightarrow> (Some e, context, tr)
         | Inr resolvedHelp \<Rightarrow>
             (case execute_of resolvedHelp of
                None \<Rightarrow> (None, context, tr)
              | Some ex \<Rightarrow>
                  (case ex \<lparr>ctx = helpContext, trace = tr, index = 0\<rparr> of
                     (e, s') \<Rightarrow> (e, context, trace s'))))"

text \<open>
  The end of the \<open>try\<close> block after a command has run (the \<open>onAfterRoute\<close> hook), and the
  \<open>catch\<close> block (the \<open>onError\<close> hook, or the error is thrown on).  Both hooks receive the
  route context as it is at that moment.
\<close>

definition after_route ::
  "'n router \<Rightarrow> string option \<times> 'n route_context \<times> 'n event list \<Rightarrow>
     string option \<times> 'n route_context \<times> 'n event list" where
  "after_route r res =
     (case res of
        (Some e, context, tr) \<Rightarrow> (Some e, context, tr)
      | (None, context, tr) \<Rightarrow>
          (case call_hook ''onAfterRoute'' (onAfterRoute r) context tr of
             (e, tr') \<Rightarrow> (e, context, tr')))"

definition on_error ::
  "'n router \<Rightarrow> string \<Rightarrow> 'n route_context \<Rightarrow> 'n event list \<Rightarrow> string option \<times> 'n event list" where
  "on_error r e context tr =
     (case onError r of
        None \<Rightarrow> (Some e, tr)
      | Some h \<Rightarrow> (h e context, tr @ [ErrorHook e context]))"

definition catch ::
  "'n router \<Rightarrow> string option \<times> 'n route_context \<times> 'n event list \<Rightarrow>
     string option \<times> 'n event list" where
  "catch r res =
     (case res of
        (Some e, context, tr) \<Rightarrow> on_error r e context tr
      | (None, context, tr) \<Rightarrow> (None, tr))"

text \<open>
  Normal routing once the name is resolved: loading, the subcommand check, the help
  fallback, or the execution followed by the \<open>onAfterRoute\<close> hook.
\<close>

definition route_command ::
  "'n router \<Rightarrow> 'n command_value \<Rightarrow> string \<Rightarrow> string list \<Rightarrow> string list \<Rightarrow>
     'n route_context \<Rightarrow> 'n event list \<Rightarrow> string option \<times> 'n route_context \<times> 'n event list" where
  "route_command r commandDef cmdName remainingArgs subcommandPath context tr =
     (case load r commandDef cmdName tr of
        (Inl e, tr1) \<Rightarrow> (Some e, context, tr1)
      | (Inr cmd, tr1) \<Rightarrow>
          (case descend cmd cmdName remainingArgs subcommandPath of
             Inl e \<Rightarrow> (Some e, context, tr1)
           | Inr (cmd', remainingArgs', subcommandPath') \<Rightarrow>
               (case (if wants_help cmd' remainingArgs' then helpCommand r else None) of
                  Some helpDef \<Rightarrow> show_help r helpDef cmdName context tr1
                | None \<Rightarrow>
                    after_route r
                      (executeCommand r cmd' cmdName remainingArgs' context
                         subcommandPath' tr1))))"

text \<open>
  The body of the \<open>try\<close> block after the custom router: the error thrown there, if any, the
  route context as it is then, and the trace.
\<close>

definition route_body ::
  "'n router \<Rightarrow> string list \<Rightarrow> 'n route_context \<Rightarrow> bool \<Rightarrow> 'n event list \<Rightarrow>
     string option \<times> 'n route_context \<times> 'n event list" where
  "route_body r argv context skip tr =
     (case (if skip then lookup (commands r) (commandName context) else None) of
        Some commandDef \<Rightarrow>
          executeCommand r commandDef (commandName context) (rc_args context) context
            [commandName context] tr
      | None \<Rightarrow>
          (case resolve r (commandName context) (rc_args context) argv of
             NotFound e \<Rightarrow> (Some e, context, tr)
           | ByDefaultHandler h \<Rightarrow>
               after_route r
                 (h argv (parseOptions argv), context,
                  tr @ [DefaultHandler argv (parseOptions argv)])
           | Resolved commandDef cmdName remainingArgs subcommandPath \<Rightarrow>
               route_command r commandDef cmdName remainingArgs subcommandPath context tr))"

text \<open>\<open>route(args)\<close>: the error it throws, if any, and what it did.\<close>

definition route :: "'n router \<Rightarrow> string list \<Rightarrow> string option \<times> 'n event list" where
  "route r argv =
     (let context0 = initial_context argv in
      case call_hook ''onBeforeRoute'' (onBeforeRoute r) context0 [] of
        (Some e, tr) \<Rightarrow> on_error r e context0 tr
      | (None, tr) \<Rightarrow>
          (case custom_route r argv context0 of
             (context, skip) \<Rightarrow> catch r (route_body r argv context skip tr)))"

section \<open>Plugin hooks and the run loop (plugins/integration.ts, core/cli.ts)\<close>












text \<open>
  The positions of the middleware that the chain \<open>tag\<close> has called, as the trace shows
  them, and the relation between two states of a chain that has called its middleware in
  order in between.
\<close>

fun called :: "string \<Rightarrow> 'n event list \<Rightarrow> nat list" where
  "called tag [] = []"
| "called tag (Called t i c # es) = (if t = tag then i # called tag es else called tag es)"
| "called tag (e # es) = called tag es"

definition in_order :: "string \<Rightarrow> nat \<Rightarrow> 'n state \<Rightarrow> 'n state \<Rightarrow> bool" where
  "in_order tag n s s' =
     (index s \<le> index s' \<and> index s' \<le> max (index s) n \<and>
      called tag (trace s') = called tag (trace s) @ [index s ..< index s'])"

section \<open>Violations, one position and one option at a time\<close>

text \<open>
  The specification's reading of validation: each position and each option has its own
  list of violations (a missing required value; a failed coercion; a failed custom
  validator), and the error raised lists all of them.  These definitions follow that
  reading and use nothing of the loops above; the theorems compare the two.
\<close>

definition nth_opt :: "'a list \<Rightarrow> nat \<Rightarrow> 'a option" where
  "nth_opt xs k = (if k < length xs then Some (xs ! k) else None)"

text \<open>
  A custom validator that returns true passes, one that returns a string contributes that
  string, one that returns another falsy value contributes the generic message.
\<close>

definition validator_outcome :: "validate_result \<Rightarrow> string \<Rightarrow> string list" where
  "validator_outcome result generic =
     (case result of Truthy \<Rightarrow> [] | Message m \<Rightarrow> [m] | Falsy \<Rightarrow> [generic])"

definition validator_violations ::
  "('n jsval \<Rightarrow> validate_result) option \<Rightarrow> 'n jsval \<Rightarrow> string \<Rightarrow> string list" where
  "validator_violations validate v generic =
     (case validate of None \<Rightarrow> [] | Some f \<Rightarrow> validator_outcome (f v) generic)"

text \<open>
  A value can be coerced to a number when it is a number or converts to one, and to a
  boolean when it is a boolean or one of the strings \<open>true\<close> and \<open>false\<close>.
\<close>

fun number_like :: "('n jsval \<Rightarrow> 'n option) \<Rightarrow> 'n jsval \<Rightarrow> bool" where
  "number_like N (JNum n) = True"
| "number_like N JNaN = True"
| "number_like N v = (N v \<noteq> None)"

fun boolean_like :: "'n jsval \<Rightarrow> bool" where
  "boolean_like (JBool b) = True"
| "boolean_like (JStr s) = (s = ''true'' \<or> s = ''false'')"
| "boolean_like v = False"

definition coercion_violations ::
  "('n jsval \<Rightarrow> 'n option) \<Rightarrow> option_type \<Rightarrow> string \<Rightarrow> 'n jsval \<Rightarrow> string list" where
  "coercion_violations N ty nm v =
     (case ty of
        OptNumber \<Rightarrow> if number_like N v then [] else [''Option --'' @ nm @ '' must be a number'']
      | OptBoolean \<Rightarrow> if boolean_like v then [] else [''Option --'' @ nm @ '' must be a boolean'']
      | OptString \<Rightarrow> []
      | OptArray \<Rightarrow> [])"

text \<open>
  The violations of one position: the argument is missing (absent or empty) though
  required; or it is to be a number and does not convert; and what its validator says
  about the value, converted when it does convert.
\<close>

definition arg_violations ::
  "('n jsval \<Rightarrow> 'n option) \<Rightarrow> string \<Rightarrow> 'n arg_spec \<Rightarrow> string option \<Rightarrow> string list" where
  "arg_violations N argName argSpec provided =
     (case provided of
        None \<Rightarrow> if arg_required argSpec then [''Missing required argument: '' @ argName] else []
      | Some v \<Rightarrow>
          if arg_required argSpec \<and> v = [] then [''Missing required argument: '' @ argName]
          else
            (case arg_type argSpec of
               ArgString \<Rightarrow>
                 validator_violations (arg_validate argSpec) (JStr v)
                   (''Invalid value for argument '' @ argName)
             | ArgNumber \<Rightarrow>
                 (case N (JStr v) of
                    None \<Rightarrow>
                      [''Argument '' @ argName @ '' must be a number''] @
                      validator_violations (arg_validate argSpec) (JStr v)
                        (''Invalid value for argument '' @ argName)
                  | Some n \<Rightarrow>
                      validator_violations (arg_validate argSpec) (JNum n)
                        (''Invalid value for argument '' @ argName))))"

definition all_arg_violations ::
  "('n jsval \<Rightarrow> 'n option) \<Rightarrow> (string \<times> 'n arg_spec) list \<Rightarrow> nat \<Rightarrow> string list \<Rightarrow> string list" where
  "all_arg_violations N specs i providedArgs =
     concat (map (\<lambda>(k, (argName, argSpec)). arg_violations N argName argSpec (nth_opt providedArgs k))
                 (List.enumerate i specs))"

text \<open>
  The required options that are missing: those that the provided map does not hold; and
  the violations of the provided options that have a specification.
\<close>

definition required_violations :: "(string \<times> 'n option_spec) list \<Rightarrow> 'n opts \<Rightarrow> string list" where
  "required_violations specs provided =
     concat (map (\<lambda>(nm, spec). if opt_required spec \<and> map_of provided nm = None
                                then [''Missing required option: --'' @ nm] else []) specs)"

definition value_violations ::
  "('n jsval \<Rightarrow> 'n option) \<Rightarrow> (string \<times> 'n option_spec) list \<Rightarrow> 'n opts \<Rightarrow> string list" where
  "value_violations N specs provided =
     concat (map (\<lambda>(nm, v). case map_of specs nm of
                               None \<Rightarrow> []
                             | Some spec \<Rightarrow>
                                 coercion_violations N (opt_type spec) nm v @
                                 validator_violations (opt_validate spec) v
                                   (''Invalid value for option --'' @ nm)) provided)"

section \<open>Sample commands\<close>

text \<open>Three positional arguments: a required string, a number and a string with validators.\<close>

definition sample_args :: "(string \<times> nat arg_spec) list" where
  "sample_args =
     [(''name'', \<lparr>arg_type = ArgString, arg_required = True, arg_validate = None\<rparr>),
      (''count'', \<lparr>arg_type = ArgNumber, arg_required = False,
                   arg_validate = Some (\<lambda>v. Falsy)\<rparr>),
      (''tag'', \<lparr>arg_type = ArgString, arg_required = False,
                 arg_validate = Some (\<lambda>v. Message ''bad tag'')\<rparr>)]"

text \<open>
  Four options: a required string, a number, a boolean, and an array whose validator
  rejects with a message; and a command with these arguments and options.
\<close>

definition sample_options :: "(string \<times> nat option_spec) list" where
  "sample_options =
     [(''name'', \<lparr>opt_type = OptString, opt_default = None, opt_required = True,
                  opt_validate = None\<rparr>),
      (''port'', \<lparr>opt_type = OptNumber, opt_default = None, opt_required = False,
                  opt_validate = None\<rparr>),
      (''force'', \<lparr>opt_type = OptBoolean, opt_default = None, opt_required = False,
                   opt_validate = None\<rparr>),
      (''tags'', \<lparr>opt_type = OptArray, opt_default = None, opt_required = False,
                  opt_validate = Some (\<lambda>v. Message ''bad tags'')\<rparr>)]"

definition job_command :: "nat command" where
  "job_command = Command ''job'' ''Run a job'' [] sample_args sample_options None None"

text \<open>A command whose only option is required and is named \<open>constructor\<close>.\<close>

definition build_command :: "'n command" where
  "build_command =
     Command ''build'' ''Build'' [] []
       [(''constructor'', \<lparr>opt_type = OptString, opt_default = None, opt_required = True,
                           opt_validate = None\<rparr>)]
       None None"

text \<open>A router with one command \<open>serve\<close>, and the same with a \<open>beforeExecute\<close> transform.\<close>

definition serve_command :: "nat command" where
  "serve_command =
     Command ''serve'' ''Start the server'' [] [] [] None
       (Some (run_handler ''serve'' (\<lambda>c. [])))"

definition serve_router :: "nat router" where
  "serve_router =
     \<lparr>commands = [(''serve'', Eager serve_command)],
      middleware = [],
      registry_logger = True,
      onBeforeRoute = None, onAfterRoute = None, onError = None,
      customRouter = None, defaultCommand = None, defaultHandler = None,
      beforeExecute = None\<rparr>"














text \<open>
  A specification \<open>deploy\<close> with a required argument and a numeric option with a default,
  built with the given spec-level middleware.  \<open>deny\<close> prints and returns without calling
  its continuation; \<open>audit\<close> prints and continues.  \<open>to_nat\<close> stands for \<open>Number\<close> on the
  strings used here.
\<close>

definition deny :: "nat middleware" where
  "deny c d = [Emit (\<lambda>c. ''denied'')]"

definition audit :: "nat middleware" where
  "audit c d = [Emit (\<lambda>c. ''audit''), CallNext]"

definition to_nat :: "nat jsval \<Rightarrow> nat option" where
  "to_nat v = (if v = JStr ''3'' then Some 3 else None)"

definition deploy_spec :: "nat middleware list \<Rightarrow> nat command_spec" where
  "deploy_spec ms =
     \<lparr>spec_name = ''deploy'', spec_description = ''Deploy'',
      spec_options = [(''replicas'', \<lparr>opt_type = OptNumber, opt_default = Some (JNum 1),
                                      opt_required = False, opt_validate = None\<rparr>)],
      spec_args = [(''target'', \<lparr>arg_type = ArgString, arg_required = True,
                                  arg_validate = None\<rparr>)],
      spec_aliases = [],
      spec_middleware = ms,
      spec_execute = Some (\<lambda>c. [Emit (\<lambda>c. ''deployed'')])\<rparr>"

definition start :: "'n cmd_context \<Rightarrow> 'n state" where
  "start c = \<lparr>ctx = c, trace = [], index = 0\<rparr>"

definition deploy_router :: "nat middleware list \<Rightarrow> nat router" where
  "deploy_router ms =
     serve_router\<lparr>middleware := ms,
                  commands := [(''deploy'', Eager (createCommand to_nat (deploy_spec [])))]\<rparr>"

section \<open>Properties of the registry\<close>






text \<open>
  Claim C8.  On a key with neither instance nor factory, \<open>get\<close> fails with the
  service-not-found error (and changes nothing) and \<open>has\<close> is false.  \<open>has\<close> is true for a
  key with a factory, and it is a pure test: the factory has not run, so the \<open>get\<close> that
  follows is the one that runs it.
\<close>

theorem registry_unregistered:
  "(services r (key_of t) = None \<and> factories r (key_of t) = None \<longrightarrow>
      get r t w = (Inl (service_not_found (key_of t)), r, w) \<and> \<not> has r t) \<and>
   has (registerFactory r t f) t \<and>
   (services r (key_of t) = None \<longrightarrow>
      get (registerFactory r t f) t w =
        (case f w of
           (Inr v, w') \<Rightarrow> (Inr v, register (registerFactory r t f) t v, w')
         | (Inl e, w') \<Rightarrow> (Inl e, registerFactory r t f, w')))"
  by (auto simp: get_def has_def register_def registerFactory_def Let_def
           split: prod.splits sum.splits)

theorem registry_unregistered_witness:
  "get (createRegistry :: (nat, nat) registry) (ByName ''cache'') 5
     = (Inl (service_not_found ''cache''), createRegistry, 5) \<and>
   \<not> has (createRegistry :: (nat, nat) registry) (ByName ''cache'') \<and>
   has (registerFactory (createRegistry :: (nat, nat) registry) (ByName ''cache'')
          (\<lambda>n. (Inr n, Suc n))) (ByName ''cache'')"
  using registry_unregistered [where r = "createRegistry :: (nat, nat) registry"
      and t = "ByName ''cache''" and w = 5 and f = "\<lambda>n. (Inr n, Suc n)"]
  by (simp add: createRegistry_def)

section \<open>Validation\<close>

lemma validateArgs_loop_errors:
  "fst (validateArgs_loop N specs i providedArgs errors named) =
     errors @ all_arg_violations N specs i providedArgs"
proof (induction specs arbitrary: i errors named)
  case Nil
  then show ?case by (simp add: all_arg_violations_def)
next
  case (Cons p specs)
  obtain argName argSpec where p: "p = (argName, argSpec)" by (cases p)
  have step: "all_arg_violations N ((argName, argSpec) # specs) i providedArgs =
      arg_violations N argName argSpec (nth_opt providedArgs i) @
      all_arg_violations N specs (Suc i) providedArgs"
    unfolding all_arg_violations_def by simp
  show ?case
    unfolding p step
    by (cases "arg_type argSpec")
       (simp_all add: Cons.IH arg_violations_def nth_opt_def Let_def Number_def isNaN_def
          validator_violations_def validator_outcome_def
          split: option.splits validate_result.splits)
qed

text \<open>
  The first loop of option validation tests \<open>name in providedOptions\<close>, which also holds
  for the names of the members that the map inherits; it finds the missing required
  options when no required option has such a name.
\<close>

lemma required_loop_errors:
  "\<forall>(nm, spec)\<in>set specs. opt_required spec \<longrightarrow> nm \<notin> set proto_members \<Longrightarrow>
   required_loop specs provided errors = errors @ required_violations specs provided"
  by (induction specs arbitrary: errors) (auto simp: required_violations_def in_obj_def)

lemma number_like_iff: "number_like N v \<longleftrightarrow> is_number v \<or> \<not> isNaN (Number N v)"
  by (cases v) (auto simp: Number_def isNaN_def split: option.splits)

lemma boolean_like_iff:
  "boolean_like v \<longleftrightarrow> is_boolean v \<or> v = JStr ''true'' \<or> v = JStr ''false''"
  by (cases v) auto

lemma provided_loop_errors:
  "fst (provided_loop N specs entries errors current) = errors @ value_violations N specs entries"
proof (induction entries arbitrary: errors current)
  case Nil
  then show ?case by (simp add: value_violations_def)
next
  case (Cons p entries)
  obtain nm v where p: "p = (nm, v)" by (cases p)
  have step: "value_violations N specs ((nm, v) # entries) =
      (case map_of specs nm of
         None \<Rightarrow> []
       | Some spec \<Rightarrow>
           coercion_violations N (opt_type spec) nm v @
           validator_violations (opt_validate spec) v (''Invalid value for option --'' @ nm)) @
      value_violations N specs entries"
    unfolding value_violations_def by simp
  show ?case
  proof (cases "map_of specs nm")
    case None
    then show ?thesis
      unfolding p step by (simp add: Cons.IH get_property_def)
  next
    case (Some spec)
    then show ?thesis
      unfolding p step
      by (cases "opt_type spec")
         (simp_all add: Cons.IH get_property_def Let_def coercion_violations_def
            number_like_iff boolean_like_iff validator_violations_def validator_outcome_def
            split: option.splits validate_result.splits)
  qed
qed

lemma split_no_sep: "c \<notin> set s \<Longrightarrow> split c s = [s]"
  by (induction s) auto

lemma split_append_sep:
  "c \<notin> set s \<Longrightarrow> split c (s @ c # t) = s # split c t"
  by (induction s) auto

lemma split_join:
  "xs \<noteq> [] \<Longrightarrow> \<forall>x\<in>set xs. c \<notin> set x \<Longrightarrow> split c (join [c] xs) = xs"
proof (induction xs)
  case Nil
  then show ?case by simp
next
  case (Cons x xs)
  show ?case
  proof (cases xs)
    case Nil
    with Cons.prems show ?thesis by (simp add: split_no_sep)
  next
    case (Cons y ys)
    with Cons.prems Cons.IH have "split c (join [c] (y # ys)) = y # ys"
      by simp
    moreover have "c \<notin> set x" using Cons.prems by simp
    ultimately show ?thesis
      using Cons by (simp add: split_append_sep)
  qed
qed

lemma validateArgs_Eager:
  "validateArgs N context (Defined (Eager cmd)) =
     (if all_arg_violations N (cmd_args cmd) 0 (args context) = []
      then [Update (\<lambda>c. c\<lparr>namedArgs :=
                     Some (snd (validateArgs_loop N (cmd_args cmd) 0 (args context) [] []))\<rparr>),
            CallNext]
      else [Throw (validation_error (all_arg_violations N (cmd_args cmd) 0 (args context)))])"
proof -
  obtain errors named where l:
    "validateArgs_loop N (cmd_args cmd) 0 (args context) [] [] = (errors, named)"
    by (cases "validateArgs_loop N (cmd_args cmd) 0 (args context) [] []")
  from validateArgs_loop_errors [of N "cmd_args cmd" 0 "args context" "[]" "[]"] l
  have "errors = all_arg_violations N (cmd_args cmd) 0 (args context)"
    by simp
  with l show ?thesis
    by (simp add: validateArgs_def)
qed

lemma validateOptions_Eager:
  assumes "\<forall>(nm, spec)\<in>set (cmd_options cmd). opt_required spec \<longrightarrow> nm \<notin> set proto_members"
  shows "validateOptions N context (Defined (Eager cmd)) =
     (let errors = required_violations (cmd_options cmd) (options context) @
                   value_violations N (cmd_options cmd) (options context);
          current = snd (provided_loop N (cmd_options cmd) (options context)
                           (required_loop (cmd_options cmd) (options context) []) (options context))
      in if errors = []
         then [Update (\<lambda>c. c\<lparr>options :=
                 convert_loop N (cmd_options cmd) (defaults_loop (cmd_options cmd) current)
                   (defaults_loop (cmd_options cmd) current)\<rparr>),
               CallNext]
         else [Update (\<lambda>c. c\<lparr>options := current\<rparr>), Throw (validation_error errors)])"
proof -
  obtain errors current where l:
    "provided_loop N (cmd_options cmd) (options context)
       (required_loop (cmd_options cmd) (options context) []) (options context) = (errors, current)"
    by (cases "provided_loop N (cmd_options cmd) (options context)
       (required_loop (cmd_options cmd) (options context) []) (options context)")
  from provided_loop_errors [of N "cmd_options cmd" "options context"
      "required_loop (cmd_options cmd) (options context) []" "options context"] l
  have "errors = required_violations (cmd_options cmd) (options context) @
                 value_violations N (cmd_options cmd) (options context)"
    by (simp add: required_loop_errors [OF assms])
  with l show ?thesis
    by (simp add: validateOptions_def Let_def)
qed

lemma validation_error_lines:
  assumes "errors \<noteq> []" and "\<forall>e\<in>set errors. CHR 0x0A \<notin> set e"
  shows "split (CHR 0x0A) (validation_error errors) = ''Validation errors:'' # errors"
proof -
  have "split (CHR 0x0A) (''Validation errors:'' @ CHR 0x0A # join [CHR 0x0A] errors)
        = ''Validation errors:'' # split (CHR 0x0A) (join [CHR 0x0A] errors)"
    by (rule split_append_sep) simp
  with assms show ?thesis
    by (simp add: validation_error_def newline_def split_join)
qed

text \<open>
  Claim C6.  Argument validation raises, when any position has a violation, one error whose
  message lists the violations of all positions, in order; option validation likewise
  lists every missing required option and, for every provided option with a
  specification, its type failure and its custom-validator failure, as long as no
  required option bears the name of a member of \<open>Object.prototype\<close>.  In the loops of the
  program, a custom validator that returns a truthy value adds nothing, one that returns a
  string adds that string, one that returns a falsy value adds the generic message.  The
  message has one line per violation.  But a required option named like a member of
  \<open>Object.prototype\<close> is never reported missing: \<open>name in providedOptions\<close> holds for it
  on every map.  Here the required option \<open>constructor\<close> is not provided, and validation
  continues without an error.
\<close>

theorem validation_collects_all_violations:
  "validateArgs N context (Defined (Eager cmd)) =
     (if all_arg_violations N (cmd_args cmd) 0 (args context) = []
      then [Update (\<lambda>c. c\<lparr>namedArgs :=
                     Some (snd (validateArgs_loop N (cmd_args cmd) 0 (args context) [] []))\<rparr>),
            CallNext]
      else [Throw (validation_error (all_arg_violations N (cmd_args cmd) 0 (args context)))]) \<and>
   ((\<forall>(nm, spec)\<in>set (cmd_options cmd). opt_required spec \<longrightarrow> nm \<notin> set proto_members) \<longrightarrow>
    validateOptions N context (Defined (Eager cmd)) =
     (let errors = required_violations (cmd_options cmd) (options context) @
                   value_violations N (cmd_options cmd) (options context);
          current = snd (provided_loop N (cmd_options cmd) (options context)
                           (required_loop (cmd_options cmd) (options context) []) (options context))
      in if errors = []
         then [Update (\<lambda>c. c\<lparr>options :=
                 convert_loop N (cmd_options cmd) (defaults_loop (cmd_options cmd) current)
                   (defaults_loop (cmd_options cmd) current)\<rparr>),
               CallNext]
         else [Update (\<lambda>c. c\<lparr>options := current\<rparr>), Throw (validation_error errors)])) \<and>
   fst (validateArgs_loop N
          [(a, \<lparr>arg_type = ArgString, arg_required = False, arg_validate = Some f\<rparr>)]
          0 [v] [] []) =
     (case f (JStr v) of
        Truthy \<Rightarrow> []
      | Message m \<Rightarrow> [m]
      | Falsy \<Rightarrow> [''Invalid value for argument '' @ a]) \<and>
   fst (provided_loop N
          [(a, \<lparr>opt_type = OptString, opt_default = None, opt_required = False,
                opt_validate = Some g\<rparr>)]
          [(a, w)] [] [(a, w)]) =
     (case g w of
        Truthy \<Rightarrow> []
      | Message m \<Rightarrow> [m]
      | Falsy \<Rightarrow> [''Invalid value for option --'' @ a]) \<and>
   (errors \<noteq> [] \<and> (\<forall>e\<in>set errors. CHR 0x0A \<notin> set e) \<longrightarrow>
      split (CHR 0x0A) (validation_error errors) = ''Validation errors:'' # errors) \<and>
   required_violations (cmd_options build_command) ([] :: 'a opts) =
     [''Missing required option: --constructor''] \<and>
   validateOptions N \<lparr>args = [], namedArgs = None, options = [], logger = True\<rparr>
     (Defined (Eager build_command)) =
     [Update (\<lambda>c. c\<lparr>options := []\<rparr>), CallNext]"
proof (intro conjI impI)
  show "validateArgs N context (Defined (Eager cmd)) =
     (if all_arg_violations N (cmd_args cmd) 0 (args context) = []
      then [Update (\<lambda>c. c\<lparr>namedArgs :=
                     Some (snd (validateArgs_loop N (cmd_args cmd) 0 (args context) [] []))\<rparr>),
            CallNext]
      else [Throw (validation_error (all_arg_violations N (cmd_args cmd) 0 (args context)))])"
    by (rule validateArgs_Eager)
next
  assume "\<forall>(nm, spec)\<in>set (cmd_options cmd). opt_required spec \<longrightarrow> nm \<notin> set proto_members"
  then show "validateOptions N context (Defined (Eager cmd)) =
     (let errors = required_violations (cmd_options cmd) (options context) @
                   value_violations N (cmd_options cmd) (options context);
          current = snd (provided_loop N (cmd_options cmd) (options context)
                           (required_loop (cmd_options cmd) (options context) []) (options context))
      in if errors = []
         then [Update (\<lambda>c. c\<lparr>options :=
                 convert_loop N (cmd_options cmd) (defaults_loop (cmd_options cmd) current)
                   (defaults_loop (cmd_options cmd) current)\<rparr>),
               CallNext]
         else [Update (\<lambda>c. c\<lparr>options := current\<rparr>), Throw (validation_error errors)])"
    by (rule validateOptions_Eager)
next
  show "fst (validateArgs_loop N
          [(a, \<lparr>arg_type = ArgString, arg_required = False, arg_validate = Some f\<rparr>)]
          0 [v] [] []) =
     (case f (JStr v) of
        Truthy \<Rightarrow> []
      | Message m \<Rightarrow> [m]
      | Falsy \<Rightarrow> [''Invalid value for argument '' @ a])"
    by (simp add: Let_def split: validate_result.splits)
next
  show "fst (provided_loop N
          [(a, \<lparr>opt_type = OptString, opt_default = None, opt_required = False,
                opt_validate = Some g\<rparr>)]
          [(a, w)] [] [(a, w)]) =
     (case g w of
        Truthy \<Rightarrow> []
      | Message m \<Rightarrow> [m]
      | Falsy \<Rightarrow> [''Invalid value for option --'' @ a])"
    by (simp add: get_property_def Let_def split: validate_result.splits)
next
  assume "errors \<noteq> [] \<and> (\<forall>e\<in>set errors. CHR 0x0A \<notin> set e)"
  then show "split (CHR 0x0A) (validation_error errors) = ''Validation errors:'' # errors"
    by (simp add: validation_error_lines)
next
  show "required_violations (cmd_options build_command) ([] :: 'a opts) =
     [''Missing required option: --constructor'']"
    by (simp add: required_violations_def build_command_def)
next
  show "validateOptions N \<lparr>args = [], namedArgs = None, options = [], logger = True\<rparr>
     (Defined (Eager build_command)) =
     [Update (\<lambda>c. c\<lparr>options := []\<rparr>), CallNext]"
    by (simp add: validateOptions_def build_command_def in_obj_def proto_members_def)
qed

text \<open>
  Arguments: an empty first argument, a non-numeric second one whose validator also fails,
  and a third one rejected with a message.  Options: the required \<open>name\<close> is missing,
  \<open>port\<close> is not a number, \<open>force\<close> is not a boolean, and the validator of \<open>tags\<close> rejects
  with a message.  Each validation raises its four violations together, one per line.
\<close>

theorem validation_collects_all_violations_witness:
  "validateArgs (\<lambda>v. None)
     \<lparr>args = [[], ''abc'', ''t''], namedArgs = None,
      options = [(''port'', JStr ''abc''), (''force'', JStr ''maybe''), (''tags'', JStr ''a, b'')],
      logger = True\<rparr>
     (Defined (Eager job_command)) =
     [Throw (validation_error
        [''Missing required argument: name'', ''Argument count must be a number'',
         ''Invalid value for argument count'', ''bad tag''])] \<and>
   validateOptions (\<lambda>v. None)
     \<lparr>args = [[], ''abc'', ''t''], namedArgs = None,
      options = [(''port'', JStr ''abc''), (''force'', JStr ''maybe''), (''tags'', JStr ''a, b'')],
      logger = True\<rparr>
     (Defined (Eager job_command)) =
     [Update (\<lambda>c. c\<lparr>options := [(''port'', JStr ''abc''), (''force'', JStr ''maybe''),
                                  (''tags'', JArr [''a'', ''b''])]\<rparr>),
      Throw (validation_error
        [''Missing required option: --name'', ''Option --port must be a number'',
         ''Option --force must be a boolean'', ''bad tags''])] \<and>
   split (CHR 0x0A) (validation_error
        [''Missing required option: --name'', ''Option --port must be a number'',
         ''Option --force must be a boolean'', ''bad tags'']) =
     [''Validation errors:'', ''Missing required option: --name'',
      ''Option --port must be a number'', ''Option --force must be a boolean'', ''bad tags'']"
  using validation_collects_all_violations [of "\<lambda>v. None"
      "\<lparr>args = [[], ''abc'', ''t''], namedArgs = None,
        options = [(''port'', JStr ''abc''), (''force'', JStr ''maybe''), (''tags'', JStr ''a, b'')],
        logger = True\<rparr>"
      job_command "''tag''" "\<lambda>v. Message ''bad tag''" "''t''"
      "\<lambda>v. Message ''bad tags''" "JStr ''a, b''"
      "[''Missing required option: --name'', ''Option --port must be a number'',
         ''Option --force must be a boolean'', ''bad tags'']"]
  by (simp add: all_arg_violations_def job_command_def sample_args_def sample_options_def
       arg_violations_def nth_opt_def validator_violations_def validator_outcome_def
       required_violations_def value_violations_def coercion_violations_def in_obj_def
       proto_members_def get_property_def obj_set_def Let_def trim_def is_ws_def
       build_command_def validateOptions_def)

section \<open>Evaluation of the chain and of route\<close>

text \<open>
  The equation of \<open>chain_next\<close> rewrites its own right-hand side; it is used applied to a
  state only.
\<close>

declare chain_next.simps [simp del]

lemma chain_next_apply:
  "chain_next tag mws cmd terminal i s =
     (let j = max i (index s) in
      if j < length mws then
        exec_script ((mws ! j) (ctx s) cmd)
          (chain_next tag mws cmd terminal (Suc j))
          (s\<lparr>index := Suc j, trace := trace s @ [Called tag j (ctx s)]\<rparr>)
      else terminal s)"
  by (simp add: chain_next.simps)

lemmas object_defs = get_property_def in_obj_def proto_members_def obj_set_def array_index_def
    is_digit_def digits_value_def

lemmas route_defs = route_def initial_context_def call_hook_def custom_route_def
    route_body_def route_command_def resolve_def lookup_def load_def descend_def wants_help_def
    helpCommand_def show_help_def after_route_def catch_def on_error_def executeCommand_def
    command_context_def initial_command_context_def run_chain_def chain_next_apply
    router_terminal_def subcommands_of_def execute_of_def call_member_def
    run_handler_def parseOptions_def startsWith_def object_defs

section \<open>Option parsing and positional arguments\<close>

lemma split_nonempty: "split c s \<noteq> []"
  by (induction s) (auto split: list.splits)

lemma split_hd: "hd (split c s) = takeWhile (\<lambda>x. x \<noteq> c) s"
  using split_nonempty [of c] by (induction s) (auto split: list.splits)

text \<open>
  \<open>--key=value\<close> binds the value up to its first \<open>=\<close>, so verbatim exactly when it has none.
\<close>

lemma parseOptions_equals_form:
  assumes "CHR ''='' \<notin> set k"
  shows "parseOptions_loop ((''--'' @ k @ ''='' @ v) # rest) opts =
         parseOptions_loop rest
           (obj_set k (JStr (takeWhile (\<lambda>x. x \<noteq> CHR ''='') v)) opts)"
proof -
  have sp: "split CHR ''='' (k @ CHR ''='' # v) = k # split CHR ''='' v"
    using assms by (rule split_append_sep)
  obtain p ps where ps: "split CHR ''='' v = p # ps"
    using split_nonempty [of "CHR ''=''" v] by (cases "split CHR ''='' v") auto
  with split_hd [of "CHR ''=''" v] have "p = takeWhile (\<lambda>x. x \<noteq> CHR ''='') v"
    by simp
  with sp ps show ?thesis
    by (simp add: startsWith_def)
qed

text \<open>
  Claim C2.  The three examples of the specification parse as it says, and so do a
  one-letter flag with a value, an unparsed \<open>-abc\<close> and a one-letter boolean flag.  But
  \<open>--name=value\<close> does not bind the value verbatim when the value contains \<open>=\<close>:
  \<open>arg.slice(2).split('=')\<close> cuts it at its first \<open>=\<close>, so \<open>--url=http://h/?a=b\<close> binds
  \<open>url\<close> to \<open>http://h/?a\<close>.
\<close>

theorem option_value_cut_at_second_equals:
  "(parseOptions [''--port'', ''8080''] :: nat opts) = [(''port'', JStr ''8080'')] \<and>
   (parseOptions [''--force''] :: nat opts) = [(''force'', JBool True)] \<and>
   (parseOptions [''--name=Bob'', ''x''] :: nat opts) = [(''name'', JStr ''Bob'')] \<and>
   (parseOptions [''-p'', ''8080'', ''-abc'', ''-v''] :: nat opts)
      = [(''p'', JStr ''8080''), (''v'', JBool True)] \<and>
   (parseOptions [''--url=http://h/?a=b''] :: nat opts) = [(''url'', JStr ''http://h/?a'')]"
  by (simp add: parseOptions_def startsWith_def object_defs)

















section \<open>Resolution of the command\<close>













section \<open>Subcommands\<close>






section \<open>Plugin hooks around a dispatch\<close>






section \<open>The command builder and the two chains\<close>

lemmas builder_defs = built_execute_def built_command_def createCommand_def
  validateArgs_def validateOptions_def logExecution_def
  validation_error_def newline_def Number_def isNaN_def
  start_def deploy_spec_def deny_def audit_def to_nat_def

lemma exec_script_append:
  "exec_script (xs @ ys) nxt s =
     (case exec_script xs nxt s of
        (None, s') \<Rightarrow> exec_script ys nxt s'
      | (Some e, s') \<Rightarrow> (Some e, s'))"
  by (induction xs nxt s rule: exec_script.induct) (auto split: prod.splits option.splits)

lemma exec_script_no_next:
  "CallNext \<notin> set sc \<Longrightarrow> exec_script sc nxt s = exec_script sc nxt' s"
  by (induction sc nxt s rule: exec_script.induct) auto

lemma exec_script_no_next_index:
  "CallNext \<notin> set sc \<Longrightarrow> index (snd (exec_script sc nxt s)) = index s"
  by (induction sc nxt s rule: exec_script.induct) auto

lemma exec_script_one_next:
  "count_list sc CallNext \<le> 1 \<Longrightarrow> (\<And>s'. index s' = index s \<Longrightarrow> f s' = g s') \<Longrightarrow>
   exec_script sc f s = exec_script sc g s"
proof (induction sc f s rule: exec_script.induct)
  case (2 rest nxt s)
  then have "CallNext \<notin> set rest"
    by (auto simp: count_list_0_iff)
  then have "\<And>s'. exec_script rest nxt s' = exec_script rest g s'"
    by (rule exec_script_no_next)
  with 2 show ?case by (simp split: prod.splits option.splits)
qed auto


lemma chain_next_at:
  "i \<le> index s \<Longrightarrow>
   chain_next tag mws cmd terminal i s =
     (if index s < length mws then
        exec_script ((mws ! index s) (ctx s) cmd)
          (chain_next tag mws cmd terminal (Suc (index s)))
          (s\<lparr>index := Suc (index s), trace := trace s @ [Called tag (index s) (ctx s)]\<rparr>)
      else terminal s)"
  by (simp add: chain_next_apply max_def Let_def)

lemma chain_next_same:
  "i \<le> i' \<Longrightarrow> i' \<le> index s \<Longrightarrow>
   chain_next tag mws cmd terminal i s = chain_next tag mws cmd terminal i' s"
  by (simp add: chain_next_at)

text \<open>
  Short circuit, in any chain: when the middleware at position \<open>k\<close> never calls its
  continuation, and every middleware before it calls its continuation at most once, the
  run is the same whatever the middleware after position \<open>k\<close> and the terminal step are:
  none of them is executed.  (A middleware that calls \<open>next\<close> twice advances the shared
  \<open>index\<close> twice, which is why the earlier ones are restricted.)
\<close>

lemma chain_short_circuit_from:
  assumes k: "k < length mws"
    and stop: "\<And>c d. CallNext \<notin> set ((mws ! k) c d)"
    and once: "\<And>j c d. j < k \<Longrightarrow> count_list ((mws ! j) c d) CallNext \<le> 1"
  shows "index s = i \<Longrightarrow> i \<le> k \<Longrightarrow>
     chain_next tag mws cmd terminal i s =
     chain_next tag (take (Suc k) mws) cmd terminal' i s"
proof (induction "k - i" arbitrary: i s)
  case 0
  then have ik: "index s = k" "i = k" by simp_all
  let ?s1 = "s\<lparr>index := Suc k, trace := trace s @ [Called tag k (ctx s)]\<rparr>"
  have "exec_script ((mws ! k) (ctx s) cmd) (chain_next tag mws cmd terminal (Suc k)) ?s1 =
        exec_script ((mws ! k) (ctx s) cmd)
          (chain_next tag (take (Suc k) mws) cmd terminal' (Suc k)) ?s1"
    by (rule exec_script_no_next [OF stop])
  with k ik show ?case
    by (simp add: chain_next_at)
next
  case (Suc n)
  then have lt: "i < k" and ix: "index s = i" by simp_all
  have IH: "\<And>s'. index s' = Suc i \<Longrightarrow>
      chain_next tag mws cmd terminal (Suc i) s' =
      chain_next tag (take (Suc k) mws) cmd terminal' (Suc i) s'"
    using Suc.hyps(1) [of "Suc i"] Suc.hyps(2) lt by simp
  let ?s1 = "s\<lparr>index := Suc i, trace := trace s @ [Called tag i (ctx s)]\<rparr>"
  have "exec_script ((mws ! i) (ctx s) cmd) (chain_next tag mws cmd terminal (Suc i)) ?s1 =
        exec_script ((mws ! i) (ctx s) cmd)
          (chain_next tag (take (Suc k) mws) cmd terminal' (Suc i)) ?s1"
    by (rule exec_script_one_next [OF once [OF lt]]) (simp add: IH)
  with lt k ix show ?case
    by (simp add: chain_next_at)
qed

lemma chain_short_circuit:
  assumes "k < length mws"
    and "\<And>c d. CallNext \<notin> set ((mws ! k) c d)"
    and "\<And>j c d. j < k \<Longrightarrow> count_list ((mws ! j) c d) CallNext \<le> 1"
  shows "run_chain tag mws cmd terminal s = run_chain tag (take (Suc k) mws) cmd terminal' s"
  using chain_short_circuit_from [OF assms, of "s\<lparr>index := 0\<rparr>" 0 tag cmd terminal terminal']
  by (simp add: run_chain_def)


text \<open>
  Order, in any chain: the middleware are called in the order of the list, from the first,
  without gaps, whatever their scripts do.
\<close>

lemma called_append: "called tag (xs @ ys) = called tag xs @ called tag ys"
  by (induction tag xs rule: called.induct) auto

lemma upt_join: "a \<le> b \<Longrightarrow> b \<le> c \<Longrightarrow> [a ..< b] @ [b ..< c] = [a ..< c]"
  using upt_add_eq_append [of a b "c - b"] by simp

lemma in_order_refl: "in_order tag n s s"
  by (simp add: in_order_def)

lemma in_order_trans:
  "in_order tag n s s' \<Longrightarrow> in_order tag n s' s'' \<Longrightarrow> in_order tag n s s''"
  by (auto simp: in_order_def upt_join max_def)

lemma in_order_cong:
  "index s1 = index s \<Longrightarrow> called tag (trace s1) = called tag (trace s) \<Longrightarrow>
   in_order tag n s1 s' \<Longrightarrow> in_order tag n s s'"
  by (simp add: in_order_def)

lemma exec_script_in_order:
  assumes nxt: "\<And>s. b \<le> index s \<Longrightarrow> in_order tag n s (snd (nxt s))"
  shows "b \<le> index s \<Longrightarrow> in_order tag n s (snd (exec_script sc nxt s))"
proof (induction sc arbitrary: s)
  case Nil
  then show ?case by (simp add: in_order_refl)
next
  case (Cons st rest)
  show ?case
  proof (cases st)
    case CallNext
    obtain r s' where n: "nxt s = (r, s')" by (cases "nxt s")
    from nxt [OF Cons.prems] n have o1: "in_order tag n s s'" by simp
    then have "b \<le> index s'" using Cons.prems by (simp add: in_order_def)
    from Cons.IH [OF this] have o2: "in_order tag n s' (snd (exec_script rest nxt s'))" .
    show ?thesis
    proof (cases r)
      case None
      with CallNext n in_order_trans [OF o1 o2] show ?thesis by simp
    next
      case (Some e)
      with CallNext n o1 show ?thesis by simp
    qed
  next
    case (Emit f)
    let ?s1 = "s\<lparr>trace := trace s @ [Output (f (ctx s))]\<rparr>"
    have "in_order tag n ?s1 (snd (exec_script rest nxt ?s1))"
      using Cons.IH [of ?s1] Cons.prems by simp
    then have "in_order tag n s (snd (exec_script rest nxt ?s1))"
      by (rule in_order_cong [rotated 2]) (simp_all add: called_append)
    with Emit show ?thesis by simp
  next
    case (LogDebug l)
    let ?s1 = "s\<lparr>trace := trace s @ [Debug l]\<rparr>"
    have "in_order tag n ?s1 (snd (exec_script rest nxt ?s1))"
      using Cons.IH [of ?s1] Cons.prems by simp
    then have "in_order tag n s (snd (exec_script rest nxt ?s1))"
      by (rule in_order_cong [rotated 2]) (simp_all add: called_append)
    with LogDebug show ?thesis by simp
  next
    case (Update f)
    let ?s1 = "s\<lparr>ctx := f (ctx s)\<rparr>"
    have "in_order tag n ?s1 (snd (exec_script rest nxt ?s1))"
      using Cons.IH [of ?s1] Cons.prems by simp
    then have "in_order tag n s (snd (exec_script rest nxt ?s1))"
      by (rule in_order_cong [rotated 2]) simp_all
    with Update show ?thesis by simp
  next
    case (Throw e)
    then show ?thesis by (simp add: in_order_refl)
  qed
qed

lemma chain_next_in_order:
  assumes tm: "\<And>s. in_order tag (length mws) s (snd (terminal s))"
  shows "i \<le> index s \<Longrightarrow>
         in_order tag (length mws) s (snd (chain_next tag mws cmd terminal i s))"
proof (induction "length mws - i" arbitrary: i s rule: less_induct)
  case less
  show ?case
  proof (cases "index s < length mws")
    case False
    with less.prems tm show ?thesis by (simp add: chain_next_at)
  next
    case True
    let ?j = "index s"
    let ?s1 = "s\<lparr>index := Suc ?j, trace := trace s @ [Called tag ?j (ctx s)]\<rparr>"
    have nxt: "\<And>s'. Suc ?j \<le> index s' \<Longrightarrow>
        in_order tag (length mws) s' (snd (chain_next tag mws cmd terminal (Suc ?j) s'))"
      using less.hyps [of "Suc ?j"] True less.prems by simp
    have "in_order tag (length mws) ?s1
        (snd (exec_script ((mws ! ?j) (ctx s) cmd) (chain_next tag mws cmd terminal (Suc ?j)) ?s1))"
      using exec_script_in_order [where b = "Suc ?j" and nxt = "chain_next tag mws cmd terminal (Suc ?j)"
          and tag = tag and n = "length mws" and s = ?s1 and sc = "(mws ! ?j) (ctx s) cmd"] nxt
      by simp
    moreover have "in_order tag (length mws) s ?s1"
      using True by (simp add: in_order_def called_append)
    ultimately have "in_order tag (length mws) s
        (snd (exec_script ((mws ! ?j) (ctx s) cmd) (chain_next tag mws cmd terminal (Suc ?j)) ?s1))"
      by (rule in_order_trans [rotated])
    with True less.prems show ?thesis by (simp add: chain_next_at)
  qed
qed

lemma chain_calls_in_list_order:
  "\<exists>m \<le> length mws.
     called tag (trace (snd (run_chain tag mws cmd (\<lambda>s. (None, s)) s))) =
     called tag (trace s) @ [0 ..< m]"
proof -
  let ?s0 = "s\<lparr>index := 0\<rparr>"
  obtain r s' where c: "chain_next tag mws cmd (\<lambda>s. (None, s)) 0 ?s0 = (r, s')"
    by (cases "chain_next tag mws cmd (\<lambda>s. (None, s)) 0 ?s0")
  have "in_order tag (length mws) ?s0 (snd (chain_next tag mws cmd (\<lambda>s. (None, s)) 0 ?s0))"
    by (rule chain_next_in_order) (simp_all add: in_order_refl)
  with c have "index s' \<le> length mws \<and>
      called tag (trace s') = called tag (trace s) @ [0 ..< index s']"
    by (simp add: in_order_def)
  with c show ?thesis
    by (auto simp: run_chain_def)
qed

text \<open>
  Claim C5 holds for the later middleware of either chain, and for the handler in the
  router's chain, where the command's \<open>execute\<close> is the last step of \<open>next\<close>.  It fails
  for the handler in the command's own chain: \<open>createCommand\<close> calls \<open>spec.execute\<close> after
  \<open>await next()\<close> has returned, whether or not the chain was run to its end.  Here \<open>deny\<close>
  returns without calling its continuation.  As spec-level middleware, it is followed by
  the handler of \<open>deploy\<close> (the built-in validation and logging are skipped); as router
  middleware in front of the same command, nothing follows it.
\<close>

theorem handler_runs_after_short_circuit:
  "built_execute to_nat (deploy_spec [deny])
     (start \<lparr>args = [''prod''], namedArgs = None, options = [], logger = True\<rparr>) =
     (None,
      \<lparr>ctx = \<lparr>args = [''prod''], namedArgs = None, options = [], logger = True\<rparr>,
       trace = [Called ''deploy'' 0 \<lparr>args = [''prod''], namedArgs = None, options = [], logger = True\<rparr>,
                Output ''denied'',
                Handler ''deploy'' \<lparr>args = [''prod''], namedArgs = None, options = [], logger = True\<rparr>,
                Output ''deployed''],
       index = 0\<rparr>) \<and>
   route (deploy_router [deny]) [''deploy'', ''prod''] =
     (None,
      [Called ''router'' 0 \<lparr>args = [''prod''], namedArgs = None, options = [], logger = True\<rparr>,
       Output ''denied''])"
  by (simp add: builder_defs route_defs deploy_router_def serve_router_def)

text \<open>
  Claim C4.  When the spec-level middleware continues, \<open>execute\<close> calls, in this order, the
  spec-level middleware (on the raw context), argument validation, option validation,
  logging, and the handler, which sees the named argument and the converted option.  But
  the handler does not always see validated values: behind a spec-level middleware that
  returns without calling its continuation, the handler still runs, here without its
  required argument and with an option that is not a number.
\<close>

theorem handler_sees_unvalidated_context:
  "built_execute to_nat (deploy_spec [audit])
     (start \<lparr>args = [''prod''], namedArgs = None, options = [(''replicas'', JStr ''3'')],
             logger = True\<rparr>) =
     (None,
      \<lparr>ctx = \<lparr>args = [''prod''], namedArgs = Some [(''target'', JStr ''prod'')],
               options = [(''replicas'', JNum 3)], logger = True\<rparr>,
       trace =
         [Called ''deploy'' 0 \<lparr>args = [''prod''], namedArgs = None,
                                options = [(''replicas'', JStr ''3'')], logger = True\<rparr>,
          Output ''audit'',
          Called ''deploy'' 1 \<lparr>args = [''prod''], namedArgs = None,
                                options = [(''replicas'', JStr ''3'')], logger = True\<rparr>,
          Called ''deploy'' 2 \<lparr>args = [''prod''], namedArgs = Some [(''target'', JStr ''prod'')],
                                options = [(''replicas'', JStr ''3'')], logger = True\<rparr>,
          Called ''deploy'' 3 \<lparr>args = [''prod''], namedArgs = Some [(''target'', JStr ''prod'')],
                                options = [(''replicas'', JNum 3)], logger = True\<rparr>,
          Debug (Executing ''deploy''), Debug (LogArgs [''prod'']),
          Debug (LogOptions [(''replicas'', JNum 3)]),
          Handler ''deploy'' \<lparr>args = [''prod''], namedArgs = Some [(''target'', JStr ''prod'')],
                               options = [(''replicas'', JNum 3)], logger = True\<rparr>,
          Output ''deployed''],
       index = 0\<rparr>) \<and>
   built_execute to_nat (deploy_spec [deny])
     (start \<lparr>args = [], namedArgs = None, options = [(''replicas'', JStr ''many'')],
             logger = True\<rparr>) =
     (None,
      \<lparr>ctx = \<lparr>args = [], namedArgs = None, options = [(''replicas'', JStr ''many'')],
               logger = True\<rparr>,
       trace =
         [Called ''deploy'' 0 \<lparr>args = [], namedArgs = None,
                                options = [(''replicas'', JStr ''many'')], logger = True\<rparr>,
          Output ''denied'',
          Handler ''deploy'' \<lparr>args = [], namedArgs = None,
                               options = [(''replicas'', JStr ''many'')], logger = True\<rparr>,
          Output ''deployed''],
       index = 0\<rparr>)"
  by (simp add: builder_defs run_chain_def chain_next_apply run_handler_def object_defs)

text \<open>
  The route context shares its options object with the command context: the default that
  option validation writes during the execution is in the context that the
  \<open>onAfterRoute\<close> hook receives.
\<close>

lemma route_hook_sees_written_options:
  "route ((deploy_router [])\<lparr>onAfterRoute := Some (\<lambda>c. None)\<rparr>) [''deploy'', ''prod''] =
     (None,
      [Called ''deploy'' 0 \<lparr>args = [''prod''], namedArgs = None, options = [], logger = True\<rparr>,
       Called ''deploy'' 1 \<lparr>args = [''prod''], namedArgs = Some [(''target'', JStr ''prod'')],
                             options = [], logger = True\<rparr>,
       Called ''deploy'' 2 \<lparr>args = [''prod''], namedArgs = Some [(''target'', JStr ''prod'')],
                             options = [(''replicas'', JNum 1)], logger = True\<rparr>,
       Debug (Executing ''deploy''), Debug (LogArgs [''prod'']),
       Debug (LogOptions [(''replicas'', JNum 1)]),
       Handler ''deploy'' \<lparr>args = [''prod''], namedArgs = Some [(''target'', JStr ''prod'')],
                            options = [(''replicas'', JNum 1)], logger = True\<rparr>,
       Output ''deployed'',
       RouteHook ''onAfterRoute''
         \<lparr>commandName = ''deploy'', rc_args = [''prod''],
          rc_options = [(''replicas'', JNum 1)]\<rparr>])"
  by (simp add: builder_defs route_defs deploy_router_def serve_router_def)
end
